theory Spec2Isabelle
  imports Complex_Main
begin

section \<open>Warehouse server: the inventory ledger and its authorization gate\<close>

text \<open>
  A shallow embedding of \<^verbatim>\<open>server.py\<close>. The SQLite database is a record of tables, a
  table is the list of its rows in insertion order, and every SQL statement of the source
  is a function on that record. A request handler takes the database as it stands when
  the connection is opened and returns the response together with the database as it is
  committed (or the opening database again, when an exception rolls the transaction
  back).

  Conventions of the embedding:
  \<^item> text is a \<^typ>\<open>string\<close> holding UTF-8 bytes;
  \<^item> a \<^verbatim>\<open>REAL\<close> column and a Python \<^verbatim>\<open>float\<close> are a \<^typ>\<open>real\<close> (comparisons and
    \<^verbatim>\<open>max\<close> are exact in both; the rounding of a binary product is not modelled);
  \<^item> an \<^verbatim>\<open>INTEGER\<close> column and a Python \<^verbatim>\<open>int\<close> are an \<^typ>\<open>int\<close>;
  \<^item> an ISO timestamp is the \<^typ>\<open>int\<close> number of microseconds it denotes;
  \<^item> what the source draws from its environment (the clock, \<^verbatim>\<open>uuid4\<close>) is a field of
    the record \<open>env\<close> passed to the handler;
  \<^item> a request arrives with its JSON payload already read: numbers are the results of the
    source's \<^verbatim>\<open>float(...)\<close> conversions, text fields are the results of \<^verbatim>\<open>str(...)\<close>.
\<close>

subsection \<open>Python primitives\<close>

text \<open>
  \<^verbatim>\<open>str.strip()\<close> removes the code points for which \<^verbatim>\<open>str.isspace\<close> holds from both
  ends: U+0009..U+000D, U+001C..U+0020, U+0085, U+00A0, U+1680, U+2000..U+200A, U+2028,
  U+2029, U+202F, U+205F and U+3000. \<open>ws_len\<close> gives the number of bytes of such a
  code point at the head of a UTF-8 string (0 when there is none), \<open>ws_len_rev\<close> the
  same for the end of a string given in reverse.
\<close>

definition ascii_space :: "char \<Rightarrow> bool" where
  "ascii_space c = (of_char c \<in> {9, 10, 11, 12, 13, 28, 29, 30, 31, 32 :: nat})"

definition ws3 :: "nat \<Rightarrow> nat \<Rightarrow> nat \<Rightarrow> bool" where
  "ws3 a b c =
     ((a = 0xE1 \<and> b = 0x9A \<and> c = 0x80) \<or>
      (a = 0xE2 \<and> b = 0x80 \<and> (0x80 \<le> c \<and> c \<le> 0x8A \<or> c = 0xA8 \<or> c = 0xA9 \<or> c = 0xAF)) \<or>
      (a = 0xE2 \<and> b = 0x81 \<and> c = 0x9F) \<or>
      (a = 0xE3 \<and> b = 0x80 \<and> c = 0x80))"

definition ws2 :: "nat \<Rightarrow> nat \<Rightarrow> bool" where
  "ws2 a b = (a = 0xC2 \<and> (b = 0x85 \<or> b = 0xA0))"

fun ws_len :: "string \<Rightarrow> nat" where
  "ws_len [] = 0"
| "ws_len (a # s) =
     (if ascii_space a then 1
      else (case s of
              [] \<Rightarrow> 0
            | b # t \<Rightarrow>
                if ws2 (of_char a) (of_char b) then 2
                else (case t of
                        [] \<Rightarrow> 0
                      | c # _ \<Rightarrow> if ws3 (of_char a) (of_char b) (of_char c) then 3 else 0)))"

fun ws_len_rev :: "string \<Rightarrow> nat" where
  "ws_len_rev [] = 0"
| "ws_len_rev (c # s) =
     (if ascii_space c then 1
      else (case s of
              [] \<Rightarrow> 0
            | b # t \<Rightarrow>
                if ws2 (of_char b) (of_char c) then 2
                else (case t of
                        [] \<Rightarrow> 0
                      | a # _ \<Rightarrow> if ws3 (of_char a) (of_char b) (of_char c) then 3 else 0)))"

fun strip_with :: "(string \<Rightarrow> nat) \<Rightarrow> nat \<Rightarrow> string \<Rightarrow> string" where
  "strip_with f 0 s = s"
| "strip_with f (Suc n) s = (if f s = 0 then s else strip_with f n (drop (f s) s))"

definition lstrip :: "string \<Rightarrow> string" where
  "lstrip s = strip_with ws_len (length s) s"

definition rstrip :: "string \<Rightarrow> string" where
  "rstrip s = rev (strip_with ws_len_rev (length s) (rev s))"

definition strip :: "string \<Rightarrow> string" where
  "strip s = rstrip (lstrip s)"

text \<open>\<^verbatim>\<open>int(x)\<close> of a float truncates towards zero.\<close>

definition py_int :: "real \<Rightarrow> int" where
  "py_int x = (if 0 \<le> x then \<lfloor>x\<rfloor> else \<lceil>x\<rceil>)"

subsection \<open>The schema\<close>

type_synonym ident = string

text \<open>\<^verbatim>\<open>role TEXT NOT NULL CHECK(role IN ('owner','manager','viewer'))\<close>\<close>

datatype role = Owner | Manager | Viewer

definition role_of_string :: "string \<Rightarrow> role option" where
  "role_of_string s =
     (if s = ''owner'' then Some Owner
      else if s = ''manager'' then Some Manager
      else if s = ''viewer'' then Some Viewer
      else None)"

record org_row =
  o_id :: ident
  o_name :: string
  o_join_code :: "string option"

record user_row =
  u_id :: ident
  u_name :: string
  u_email :: string
  u_password_hash :: string

record membership_row =
  m_user_id :: ident
  m_org_id :: ident
  m_role :: role
  m_created_at :: int

record session_row =
  s_token :: string
  s_user_id :: ident
  s_org_id :: ident
  s_expires_at :: int

record product_row =
  p_id :: ident
  p_org_id :: ident
  p_name :: string
  p_sku :: string
  p_unit :: string
  p_price :: real
  p_stock :: int
  p_purchase_price :: real
  p_created_at :: int

record receipt_row =
  r_id :: ident
  r_org_id :: ident
  r_product_id :: ident
  r_quantity :: int
  r_cost :: real
  r_created_at :: int

record shipment_row =
  sh_id :: ident
  sh_org_id :: ident
  sh_created_at :: int

text \<open>
  \<^verbatim>\<open>org_shipment_items.id\<close> is \<^verbatim>\<open>INTEGER PRIMARY KEY AUTOINCREMENT\<close>: the rows of the
  table, in list order, are the rows in ascending \<^verbatim>\<open>id\<close>.
\<close>

record item_row =
  i_shipment_id :: ident
  i_org_id :: ident
  i_product_id :: ident
  i_quantity :: int
  i_price :: real
  i_amount :: real

record db =
  organizations :: "org_row list"
  users :: "user_row list"
  memberships :: "membership_row list"
  sessions :: "session_row list"
  org_products :: "product_row list"
  org_receipts :: "receipt_row list"
  org_shipments :: "shipment_row list"
  org_shipment_items :: "item_row list"


subsection \<open>The environment of a request and its payloads\<close>

text \<open>
  \<open>e_now\<close> is the reading of \<^verbatim>\<open>now_utc()\<close> in \<^verbatim>\<open>_get_current_auth\<close>; \<open>e_stamp\<close> the
  reading of \<^verbatim>\<open>now_iso()\<close> stored by an \<^verbatim>\<open>INSERT\<close> (the source reads the clock once for
  each \<^verbatim>\<open>INSERT\<close>; all of one request get the same reading here); the identifiers are
  the results of \<^verbatim>\<open>make_id("p")\<close>, \<^verbatim>\<open>make_id("r")\<close>, \<^verbatim>\<open>make_id("s")\<close> and of
  \<^verbatim>\<open>secrets.token_urlsafe(32)\<close>; \<open>e_auto_sku\<close> is the generated \<^verbatim>\<open>AUTO-XXXX\<close> code;
  \<open>e_verify password stored\<close> is \<^verbatim>\<open>verify_password\<close>, the PBKDF2 check.
\<close>

record env =
  e_now :: int
  e_stamp :: int
  e_product_id :: ident
  e_receipt_id :: ident
  e_shipment_id :: ident
  e_token :: string
  e_auto_sku :: string
  e_verify :: "string \<Rightarrow> string \<Rightarrow> bool"

record product_payload =
  pp_name :: string
  pp_sku :: string
  pp_unit :: string
  pp_price :: real
  pp_stock :: real
  pp_purchase_price :: real

record item_payload =
  ip_product_id :: string
  ip_quantity :: real
  ip_price :: "real option"

text \<open>
  One constructor per route of \<^verbatim>\<open>_route_auth\<close> and \<^verbatim>\<open>_route_api\<close>. A path parameter is
  \<^verbatim>\<open>path.split("/")[3]\<close>. \<open>PostMembershipRole email role\<close> carries the payload's email
  after \<^verbatim>\<open>.strip().lower()\<close> and the role after \<^verbatim>\<open>.strip()\<close>; \<open>AuthLogin\<close> the user name
  after \<^verbatim>\<open>.strip()\<close> and the password.
\<close>

datatype request =
    AuthRegister
  | AuthLogin string string
  | AuthLogout
  | AuthMe
  | AuthOther
  | GetState
  | PostMembershipRole string string
  | PostProduct product_payload
  | PatchProductPrice ident real
  | PatchProduct ident string real
  | DeleteProduct ident
  | PostReceipt string real real
  | DeleteReceipt ident
  | PostShipment "item_payload list"
  | DeleteShipment ident
  | ApiOther

subsection \<open>Responses\<close>

datatype status =
  OK | CREATED | BAD_REQUEST | UNAUTHORIZED | FORBIDDEN | NOT_FOUND | INTERNAL_SERVER_ERROR

text \<open>The texts of the \<^verbatim>\<open>{"error": ...}\<close> bodies, one constructor per text of the source.\<close>

datatype message =
    RegistrationDisabled
  | BadCredentials
  | UserHasNoOrganization
  | NotLoggedIn
  | AuthorizationRequired
  | OnlyOwnerChangesRoles
  | BadEmailOrRole
  | UserNotFound
  | UserNotInOrganization
  | InsufficientRights
  | NameRequired
  | ProductNameRequired
  | ProductNotFound
  | BadReceiptData
  | ReceiptNotFound
  | NoShipmentLines
  | BadShipmentLine
  | NotEnoughStock
  | ShipmentNotFound
  | InternalError
  | RouteNotFound

type_synonym me_json = "string \<times> string \<times> string \<times> string \<times> role"
type_synonym product_json = "ident \<times> string \<times> string \<times> string \<times> real \<times> int \<times> real"
type_synonym receipt_json = "ident \<times> ident \<times> int \<times> real \<times> int"
type_synonym item_json = "ident \<times> int \<times> real \<times> real"
type_synonym shipment_json = "ident \<times> int \<times> item_json list"
type_synonym state_json = "product_json list \<times> receipt_json list \<times> shipment_json list"

datatype body =
    Error message
  | Ok_true
  | Login_ok me_json string
  | Logout_ok
  | Me me_json
  | State state_json
  | State_me state_json me_json

type_synonym response = "status \<times> body"

text \<open>
  The failure kinds of the specification, read off a response: the source tells
  \<open>InsufficientStock\<close> from \<open>ValidationError\<close> by the text of a 400 response only.
\<close>

datatype failure =
  Unauthenticated | Forbidden | ValidationError | NotFound | InsufficientStock | InternalFailure

fun failure_of :: "response \<Rightarrow> failure option" where
  "failure_of (UNAUTHORIZED, _) = Some Unauthenticated"
| "failure_of (FORBIDDEN, _) = Some Forbidden"
| "failure_of (NOT_FOUND, _) = Some NotFound"
| "failure_of (BAD_REQUEST, b) =
     (if b = Error NotEnoughStock then Some InsufficientStock else Some ValidationError)"
| "failure_of (INTERNAL_SERVER_ERROR, _) = Some InternalFailure"
| "failure_of (OK, _) = None"
| "failure_of (CREATED, _) = None"

subsection \<open>SQL statements\<close>

text \<open>
  \<^verbatim>\<open>PRAGMA foreign_keys = ON\<close>: an \<^verbatim>\<open>INSERT\<close> that repeats a primary key or names a
  parent row that does not exist raises \<^verbatim>\<open>sqlite3.IntegrityError\<close> (the result
  \<open>None\<close>), and a \<^verbatim>\<open>DELETE\<close> of a parent row deletes the rows that reference it
  (\<^verbatim>\<open>ON DELETE CASCADE\<close>).
\<close>

definition org_exists :: "db \<Rightarrow> ident \<Rightarrow> bool" where
  "org_exists d org = (org \<in> set (map o_id (organizations d)))"

definition insert_session :: "session_row \<Rightarrow> db \<Rightarrow> db option" where
  "insert_session s d =
     (if s_token s \<in> set (map s_token (sessions d))
         \<or> s_user_id s \<notin> set (map u_id (users d))
         \<or> \<not> org_exists d (s_org_id s)
      then None
      else Some (d\<lparr>sessions := sessions d @ [s]\<rparr>))"

definition insert_product :: "product_row \<Rightarrow> db \<Rightarrow> db option" where
  "insert_product p d =
     (if p_id p \<in> set (map p_id (org_products d)) \<or> \<not> org_exists d (p_org_id p)
      then None
      else Some (d\<lparr>org_products := org_products d @ [p]\<rparr>))"

definition insert_receipt :: "receipt_row \<Rightarrow> db \<Rightarrow> db option" where
  "insert_receipt r d =
     (if r_id r \<in> set (map r_id (org_receipts d))
         \<or> \<not> org_exists d (r_org_id r)
         \<or> r_product_id r \<notin> set (map p_id (org_products d))
      then None
      else Some (d\<lparr>org_receipts := org_receipts d @ [r]\<rparr>))"

definition insert_shipment :: "shipment_row \<Rightarrow> db \<Rightarrow> db option" where
  "insert_shipment s d =
     (if sh_id s \<in> set (map sh_id (org_shipments d)) \<or> \<not> org_exists d (sh_org_id s)
      then None
      else Some (d\<lparr>org_shipments := org_shipments d @ [s]\<rparr>))"

definition insert_item :: "item_row \<Rightarrow> db \<Rightarrow> db option" where
  "insert_item i d =
     (if i_shipment_id i \<notin> set (map sh_id (org_shipments d))
         \<or> \<not> org_exists d (i_org_id i)
         \<or> i_product_id i \<notin> set (map p_id (org_products d))
      then None
      else Some (d\<lparr>org_shipment_items := org_shipment_items d @ [i]\<rparr>))"

text \<open>\<^verbatim>\<open>SELECT ... FROM org_products WHERE id = ? AND org_id = ?\<close>, \<^verbatim>\<open>fetchone()\<close>\<close>

definition select_product :: "db \<Rightarrow> ident \<Rightarrow> ident \<Rightarrow> product_row option" where
  "select_product d pid org =
     find (\<lambda>p. p_id p = pid \<and> p_org_id p = org) (org_products d)"

text \<open>\<^verbatim>\<open>UPDATE org_products SET ... WHERE id = ? AND org_id = ?\<close> and its \<^verbatim>\<open>rowcount\<close>\<close>

definition update_product :: "(product_row \<Rightarrow> product_row) \<Rightarrow> ident \<Rightarrow> ident \<Rightarrow> db \<Rightarrow> db" where
  "update_product f pid org d =
     d\<lparr>org_products :=
         map (\<lambda>p. if p_id p = pid \<and> p_org_id p = org then f p else p) (org_products d)\<rparr>"

definition product_rowcount :: "db \<Rightarrow> ident \<Rightarrow> ident \<Rightarrow> nat" where
  "product_rowcount d pid org =
     length (filter (\<lambda>p. p_id p = pid \<and> p_org_id p = org) (org_products d))"

text \<open>
  \<^verbatim>\<open>DELETE FROM org_products WHERE id = ? AND org_id = ?\<close>: the receipts and shipment
  items of a deleted product go with it.
\<close>

definition delete_product :: "ident \<Rightarrow> ident \<Rightarrow> db \<Rightarrow> db" where
  "delete_product pid org d =
     (if product_rowcount d pid org = 0 then d
      else d\<lparr>org_products :=
                filter (\<lambda>p. \<not> (p_id p = pid \<and> p_org_id p = org)) (org_products d),
              org_receipts := filter (\<lambda>r. r_product_id r \<noteq> pid) (org_receipts d),
              org_shipment_items := filter (\<lambda>i. i_product_id i \<noteq> pid) (org_shipment_items d)\<rparr>)"

text \<open>
  \<^verbatim>\<open>DELETE FROM org_shipments WHERE id IN (SELECT s.id FROM org_shipments s LEFT JOIN
  org_shipment_items i ON i.shipment_id=s.id WHERE s.org_id=? GROUP BY s.id HAVING
  COUNT(i.id)=0)\<close>: a shipment so deleted has no item, so nothing cascades.
\<close>

definition empty_shipment_ids :: "db \<Rightarrow> ident \<Rightarrow> ident list" where
  "empty_shipment_ids d org =
     map sh_id
       (filter (\<lambda>s. sh_org_id s = org \<and>
                     sh_id s \<notin> set (map i_shipment_id (org_shipment_items d)))
          (org_shipments d))"

definition sweep_empty_shipments :: "ident \<Rightarrow> db \<Rightarrow> db" where
  "sweep_empty_shipments org d =
     d\<lparr>org_shipments :=
         filter (\<lambda>s. sh_id s \<notin> set (empty_shipment_ids d org)) (org_shipments d)\<rparr>"

definition select_receipt :: "db \<Rightarrow> ident \<Rightarrow> ident \<Rightarrow> receipt_row option" where
  "select_receipt d rid org =
     find (\<lambda>r. r_id r = rid \<and> r_org_id r = org) (org_receipts d)"

definition delete_receipt :: "ident \<Rightarrow> ident \<Rightarrow> db \<Rightarrow> db" where
  "delete_receipt rid org d =
     d\<lparr>org_receipts := filter (\<lambda>r. \<not> (r_id r = rid \<and> r_org_id r = org)) (org_receipts d)\<rparr>"

definition select_shipment :: "db \<Rightarrow> ident \<Rightarrow> ident \<Rightarrow> shipment_row option" where
  "select_shipment d sid org =
     find (\<lambda>s. sh_id s = sid \<and> sh_org_id s = org) (org_shipments d)"

definition delete_shipment :: "ident \<Rightarrow> ident \<Rightarrow> db \<Rightarrow> db" where
  "delete_shipment sid org d =
     (if select_shipment d sid org = None then d
      else d\<lparr>org_shipments :=
                filter (\<lambda>s. \<not> (sh_id s = sid \<and> sh_org_id s = org)) (org_shipments d),
              org_shipment_items :=
                filter (\<lambda>i. i_shipment_id i \<noteq> sid) (org_shipment_items d)\<rparr>)"

definition delete_session :: "string \<Rightarrow> db \<Rightarrow> db" where
  "delete_session token d = d\<lparr>sessions := filter (\<lambda>s. s_token s \<noteq> token) (sessions d)\<rparr>"


subsection \<open>Session resolution\<close>

record auth =
  a_token :: string
  a_user_id :: ident
  a_org_id :: ident
  a_name :: string
  a_email :: string
  a_org_name :: string
  a_org_join_code :: string
  a_role :: role

text \<open>
  The query of \<^verbatim>\<open>_get_current_auth\<close>: \<^verbatim>\<open>sessions\<close> joined with \<^verbatim>\<open>users\<close>,
  \<^verbatim>\<open>organizations\<close> and \<^verbatim>\<open>memberships\<close>, restricted to the token.
\<close>

definition session_join ::
  "db \<Rightarrow> string \<Rightarrow> (session_row \<times> user_row \<times> org_row \<times> membership_row) list" where
  "session_join d token =
     concat (map (\<lambda>s.
       concat (map (\<lambda>u.
         concat (map (\<lambda>z.
           map (\<lambda>m. (s, u, z, m))
             (filter (\<lambda>m. m_user_id m = s_user_id s \<and> m_org_id m = s_org_id s) (memberships d)))
           (filter (\<lambda>z. o_id z = s_org_id s) (organizations d))))
         (filter (\<lambda>u. u_id u = s_user_id s) (users d))))
       (filter (\<lambda>s. s_token s = token) (sessions d)))"

definition auth_of :: "session_row \<times> user_row \<times> org_row \<times> membership_row \<Rightarrow> auth" where
  "auth_of row =
     (case row of (s, u, z, m) \<Rightarrow>
        \<lparr>a_token = s_token s, a_user_id = s_user_id s, a_org_id = s_org_id s,
         a_name = u_name u, a_email = u_email u, a_org_name = o_name z,
         a_org_join_code = (case o_join_code z of None \<Rightarrow> [] | Some c \<Rightarrow> c),
         a_role = m_role m\<rparr>)"

text \<open>
  \<^verbatim>\<open>_get_current_auth\<close>: the cookie's token (\<open>None\<close> when the request has no such
  cookie), the clock, the database. An expired session is deleted on the way.
\<close>

definition get_current_auth :: "string option \<Rightarrow> int \<Rightarrow> db \<Rightarrow> auth option \<times> db" where
  "get_current_auth cookie now d =
     (case cookie of
        None \<Rightarrow> (None, d)
      | Some token \<Rightarrow>
          if token = [] then (None, d)
          else (case session_join d token of
                  [] \<Rightarrow> (None, d)
                | row # _ \<Rightarrow>
                    if s_expires_at (fst row) \<le> now then (None, delete_session token d)
                    else (Some (auth_of row), d)))"

definition require_auth :: "string option \<Rightarrow> int \<Rightarrow> db \<Rightarrow> (response + auth) \<times> db" where
  "require_auth cookie now d =
     (case get_current_auth cookie now d of
        (None, d') \<Rightarrow> (Inl (UNAUTHORIZED, Error AuthorizationRequired), d')
      | (Some a, d') \<Rightarrow> (Inr a, d'))"

definition require_role :: "auth \<Rightarrow> role set \<Rightarrow> bool" where
  "require_role a allowed = (a_role a \<in> allowed)"

definition me_of :: "auth \<Rightarrow> me_json" where
  "me_of a = (a_name a, a_email a, a_org_name a, a_org_join_code a, a_role a)"

subsection \<open>Reading the state of an organization\<close>

text \<open>
  \<^verbatim>\<open>ORDER BY datetime(created_at) DESC\<close>: \<^verbatim>\<open>datetime\<close> has a resolution of one second;
  rows of the same second are kept in table order (SQL leaves their order open).
\<close>

definition newest_first :: "('a \<Rightarrow> int) \<Rightarrow> 'a list \<Rightarrow> 'a list" where
  "newest_first created rows = sort_key (\<lambda>r. - (created r div 1000000)) rows"

definition row_to_product :: "product_row \<Rightarrow> product_json" where
  "row_to_product r =
     (p_id r, p_name r, p_sku r, p_unit r, p_price r, p_stock r, p_purchase_price r)"

definition row_to_receipt :: "receipt_row \<Rightarrow> receipt_json" where
  "row_to_receipt r = (r_id r, r_product_id r, r_quantity r, r_cost r, r_created_at r)"

definition row_to_item :: "item_row \<Rightarrow> item_json" where
  "row_to_item i = (i_product_id i, i_quantity i, i_price i, i_amount i)"

definition fetch_state :: "db \<Rightarrow> ident \<Rightarrow> state_json" where
  "fetch_state d org =
     (map row_to_product
        (newest_first p_created_at (filter (\<lambda>p. p_org_id p = org) (org_products d))),
      map row_to_receipt
        (newest_first r_created_at (filter (\<lambda>r. r_org_id r = org) (org_receipts d))),
      map (\<lambda>sh. (sh_id sh, sh_created_at sh,
                 map row_to_item
                   (filter (\<lambda>i. i_shipment_id i = sh_id sh) (org_shipment_items d))))
        (newest_first sh_created_at (filter (\<lambda>s. sh_org_id s = org) (org_shipments d))))"

subsection \<open>The routes of \<^verbatim>\<open>_route_auth\<close>\<close>

text \<open>
  A handler returns \<open>None\<close> when the source raises: \<^verbatim>\<open>_route_api\<close> then answers 500
  and \<^verbatim>\<open>db_conn\<close> rolls the transaction back.
\<close>

text \<open>
  The membership query of the login: \<^verbatim>\<open>memberships\<close> joined with \<^verbatim>\<open>organizations\<close>,
  \<^verbatim>\<open>ORDER BY m.created_at ASC LIMIT 1\<close>.
\<close>

definition first_membership :: "db \<Rightarrow> ident \<Rightarrow> (membership_row \<times> org_row) option" where
  "first_membership d uid =
     (case sort_key (\<lambda>mz. m_created_at (fst mz))
             (concat (map (\<lambda>m. map (\<lambda>z. (m, z))
                                  (filter (\<lambda>z. o_id z = m_org_id m) (organizations d)))
                        (filter (\<lambda>m. m_user_id m = uid) (memberships d)))) of
        [] \<Rightarrow> None
      | mz # _ \<Rightarrow> Some mz)"

definition SESSION_TTL_DAYS :: int where
  "SESSION_TTL_DAYS = 14"

definition auth_login :: "env \<Rightarrow> string \<Rightarrow> string \<Rightarrow> db \<Rightarrow> (response \<times> db) option" where
  "auth_login e username password d =
     (case find (\<lambda>u. u_name u = username) (users d) of
        None \<Rightarrow> Some ((UNAUTHORIZED, Error BadCredentials), d)
      | Some user \<Rightarrow>
          if \<not> e_verify e password (u_password_hash user)
          then Some ((UNAUTHORIZED, Error BadCredentials), d)
          else (case first_membership d (u_id user) of
                  None \<Rightarrow> Some ((FORBIDDEN, Error UserHasNoOrganization), d)
                | Some (m, z) \<Rightarrow>
                    (case insert_session
                            \<lparr>s_token = e_token e, s_user_id = u_id user, s_org_id = m_org_id m,
                             s_expires_at = e_now e + SESSION_TTL_DAYS * 24 * 3600 * 1000000\<rparr> d of
                       None \<Rightarrow> None
                     | Some d' \<Rightarrow>
                         Some ((OK, Login_ok (u_name user, u_email user, o_name z,
                                   (case o_join_code z of None \<Rightarrow> [] | Some c \<Rightarrow> c), m_role m)
                                  (e_token e)), d'))))"

definition auth_logout :: "env \<Rightarrow> string option \<Rightarrow> db \<Rightarrow> response \<times> db" where
  "auth_logout e cookie d =
     (case get_current_auth cookie (e_now e) d of
        (None, d') \<Rightarrow> ((OK, Logout_ok), d')
      | (Some a, d') \<Rightarrow> ((OK, Logout_ok), delete_session (a_token a) d'))"

definition auth_me :: "env \<Rightarrow> string option \<Rightarrow> db \<Rightarrow> response \<times> db" where
  "auth_me e cookie d =
     (case get_current_auth cookie (e_now e) d of
        (None, d') \<Rightarrow> ((UNAUTHORIZED, Error NotLoggedIn), d')
      | (Some a, d') \<Rightarrow> ((OK, Me (me_of a)), d'))"

subsection \<open>The routes of \<^verbatim>\<open>_route_api\<close>, after \<^verbatim>\<open>_require_auth\<close>\<close>

definition get_state :: "auth \<Rightarrow> db \<Rightarrow> response \<times> db" where
  "get_state a d = ((OK, State_me (fetch_state d (a_org_id a)) (me_of a)), d)"

text \<open>\<^verbatim>\<open>POST /api/memberships/role\<close>\<close>

definition post_membership_role :: "auth \<Rightarrow> string \<Rightarrow> string \<Rightarrow> db \<Rightarrow> response \<times> db" where
  "post_membership_role a email role_text d =
     (if \<not> require_role a {Owner} then ((FORBIDDEN, Error OnlyOwnerChangesRoles), d)
      else (case role_of_string role_text of
              None \<Rightarrow> ((BAD_REQUEST, Error BadEmailOrRole), d)
            | Some new_role \<Rightarrow>
                if email = [] then ((BAD_REQUEST, Error BadEmailOrRole), d)
                else (case find (\<lambda>u. u_email u = email) (users d) of
                        None \<Rightarrow> ((NOT_FOUND, Error UserNotFound), d)
                      | Some user \<Rightarrow>
                          (case find (\<lambda>m. m_user_id m = u_id user \<and> m_org_id m = a_org_id a)
                                  (memberships d) of
                             None \<Rightarrow> ((NOT_FOUND, Error UserNotInOrganization), d)
                           | Some _ \<Rightarrow>
                               ((OK, Ok_true),
                                d\<lparr>memberships :=
                                    map (\<lambda>m. if m_user_id m = u_id user \<and> m_org_id m = a_org_id a
                                              then m\<lparr>m_role := new_role\<rparr> else m)
                                      (memberships d)\<rparr>)))))"

text \<open>\<^verbatim>\<open>POST /api/products\<close>; the default unit label is the UTF-8 text of U+0448 U+0442.\<close>

definition default_unit :: string where
  "default_unit = [char_of (0xD1 :: nat), char_of (0x88 :: nat), char_of (0xD1 :: nat), char_of (0x82 :: nat)]"

definition or_default :: "string \<Rightarrow> string \<Rightarrow> string" where
  "or_default s dflt = (if s = [] then dflt else s)"

definition post_products :: "env \<Rightarrow> auth \<Rightarrow> product_payload \<Rightarrow> db \<Rightarrow> (response \<times> db) option" where
  "post_products e a payload d =
     (if \<not> require_role a {Owner, Manager} then Some ((FORBIDDEN, Error InsufficientRights), d)
      else
        let product_id = e_product_id e;
            name = strip (pp_name payload)
        in if name = [] then Some ((BAD_REQUEST, Error NameRequired), d)
           else
             let sku = or_default (strip (pp_sku payload)) (e_auto_sku e);
                 unit = or_default (strip (pp_unit payload)) default_unit;
                 price = max 0 (pp_price payload);
                 stock = max 0 (py_int (pp_stock payload));
                 purchase = max 0 (pp_purchase_price payload)
             in (case insert_product
                        \<lparr>p_id = product_id, p_org_id = a_org_id a, p_name = name, p_sku = sku,
                         p_unit = unit, p_price = price, p_stock = stock,
                         p_purchase_price = purchase, p_created_at = e_stamp e\<rparr> d of
                   None \<Rightarrow> None
                 | Some d1 \<Rightarrow>
                     (case (if stock > 0
                            then insert_receipt
                                   \<lparr>r_id = e_receipt_id e, r_org_id = a_org_id a,
                                    r_product_id = product_id, r_quantity = stock,
                                    r_cost = purchase, r_created_at = e_stamp e\<rparr> d1
                            else Some d1) of
                        None \<Rightarrow> None
                      | Some d2 \<Rightarrow> Some ((CREATED, State (fetch_state d2 (a_org_id a))), d2))))"

text \<open>\<^verbatim>\<open>PATCH /api/products/<id>/price\<close>\<close>

definition patch_product_price :: "auth \<Rightarrow> ident \<Rightarrow> real \<Rightarrow> db \<Rightarrow> response \<times> db" where
  "patch_product_price a product_id payload_price d =
     (if \<not> require_role a {Owner, Manager} then ((FORBIDDEN, Error InsufficientRights), d)
      else
        let price = max 0 payload_price;
            d1 = update_product (\<lambda>p. p\<lparr>p_price := price\<rparr>) product_id (a_org_id a) d
        in if product_rowcount d product_id (a_org_id a) = 0
           then ((NOT_FOUND, Error ProductNotFound), d1)
           else ((OK, State (fetch_state d1 (a_org_id a))), d1))"

text \<open>\<^verbatim>\<open>PATCH /api/products/<id>\<close>\<close>

definition patch_product :: "auth \<Rightarrow> ident \<Rightarrow> string \<Rightarrow> real \<Rightarrow> db \<Rightarrow> response \<times> db" where
  "patch_product a product_id payload_name payload_price d =
     (if \<not> require_role a {Owner, Manager} then ((FORBIDDEN, Error InsufficientRights), d)
      else
        let name = strip payload_name;
            price = max 0 payload_price
        in if name = [] then ((BAD_REQUEST, Error ProductNameRequired), d)
           else
             let d1 = update_product (\<lambda>p. p\<lparr>p_name := name, p_price := price\<rparr>)
                        product_id (a_org_id a) d
             in if product_rowcount d product_id (a_org_id a) = 0
                then ((NOT_FOUND, Error ProductNotFound), d1)
                else ((OK, State (fetch_state d1 (a_org_id a))), d1))"

text \<open>\<^verbatim>\<open>DELETE /api/products/<id>\<close>\<close>

definition delete_products :: "auth \<Rightarrow> ident \<Rightarrow> db \<Rightarrow> response \<times> db" where
  "delete_products a product_id d =
     (if \<not> require_role a {Owner, Manager} then ((FORBIDDEN, Error InsufficientRights), d)
      else
        let d1 = delete_product product_id (a_org_id a) d
        in if product_rowcount d product_id (a_org_id a) = 0
           then ((NOT_FOUND, Error ProductNotFound), d1)
           else
             let d2 = sweep_empty_shipments (a_org_id a) d1
             in ((OK, State (fetch_state d2 (a_org_id a))), d2))"

text \<open>\<^verbatim>\<open>POST /api/receipts\<close>\<close>

definition post_receipts ::
  "env \<Rightarrow> auth \<Rightarrow> string \<Rightarrow> real \<Rightarrow> real \<Rightarrow> db \<Rightarrow> (response \<times> db) option" where
  "post_receipts e a payload_product_id payload_quantity payload_cost d =
     (if \<not> require_role a {Owner, Manager} then Some ((FORBIDDEN, Error InsufficientRights), d)
      else
        let product_id = strip payload_product_id;
            quantity = py_int payload_quantity;
            cost = max 0 payload_cost
        in if product_id = [] \<or> quantity \<le> 0
           then Some ((BAD_REQUEST, Error BadReceiptData), d)
           else (case select_product d product_id (a_org_id a) of
                   None \<Rightarrow> Some ((NOT_FOUND, Error ProductNotFound), d)
                 | Some _ \<Rightarrow>
                     let d1 = update_product
                                (\<lambda>p. p\<lparr>p_stock := p_stock p + quantity,
                                       p_purchase_price :=
                                         (if cost > 0 then cost else p_purchase_price p)\<rparr>)
                                product_id (a_org_id a) d
                     in (case insert_receipt
                                \<lparr>r_id = e_receipt_id e, r_org_id = a_org_id a,
                                 r_product_id = product_id, r_quantity = quantity,
                                 r_cost = cost, r_created_at = e_stamp e\<rparr> d1 of
                           None \<Rightarrow> None
                         | Some d2 \<Rightarrow>
                             Some ((CREATED, State (fetch_state d2 (a_org_id a))), d2))))"

text \<open>\<^verbatim>\<open>DELETE /api/receipts/<id>\<close>\<close>

definition delete_receipts :: "auth \<Rightarrow> ident \<Rightarrow> db \<Rightarrow> response \<times> db" where
  "delete_receipts a receipt_id d =
     (if \<not> require_role a {Owner, Manager} then ((FORBIDDEN, Error InsufficientRights), d)
      else (case select_receipt d receipt_id (a_org_id a) of
              None \<Rightarrow> ((NOT_FOUND, Error ReceiptNotFound), d)
            | Some receipt \<Rightarrow>
                let d1 = update_product
                           (\<lambda>p. p\<lparr>p_stock :=
                                    (if p_stock p - r_quantity receipt < 0 then 0
                                     else p_stock p - r_quantity receipt)\<rparr>)
                           (r_product_id receipt) (a_org_id a) d;
                    d2 = delete_receipt receipt_id (a_org_id a) d1
                in ((OK, State (fetch_state d2 (a_org_id a))), d2)))"


text \<open>
  \<^verbatim>\<open>POST /api/shipments\<close>. The first loop reads the payload into \<^verbatim>\<open>prepared\<close> and stops
  at a line with a blank product or a quantity that is not positive (\<open>None\<close> here); the
  second loop checks every line against the stock; the third loop writes.
\<close>

record line =
  l_product_id :: ident
  l_qty :: int
  l_price :: "real option"

fun prepare :: "item_payload list \<Rightarrow> line list option" where
  "prepare [] = Some []"
| "prepare (item # items) =
     (let product_id = strip (ip_product_id item);
          qty = py_int (ip_quantity item);
          custom_price = map_option (max 0) (ip_price item)
      in if product_id = [] \<or> qty \<le> 0 then None
         else map_option
                ((#) \<lparr>l_product_id = product_id, l_qty = qty, l_price = custom_price\<rparr>)
                (prepare items))"

fun check_lines :: "db \<Rightarrow> ident \<Rightarrow> line list \<Rightarrow> response option" where
  "check_lines d org [] = None"
| "check_lines d org (l # ls) =
     (case select_product d (l_product_id l) org of
        None \<Rightarrow> Some (NOT_FOUND, Error ProductNotFound)
      | Some product \<Rightarrow>
          if p_stock product < l_qty l then Some (BAD_REQUEST, Error NotEnoughStock)
          else check_lines d org ls)"

text \<open>
  One round of the third loop. Reading the price of a product that is not there raises
  \<^verbatim>\<open>TypeError\<close>.
\<close>

definition commit_line :: "ident \<Rightarrow> ident \<Rightarrow> line \<Rightarrow> db \<Rightarrow> db option" where
  "commit_line shipment_id org l d =
     (case (case l_price l of
              Some custom \<Rightarrow> Some custom
            | None \<Rightarrow> map_option p_price (select_product d (l_product_id l) org)) of
        None \<Rightarrow> None
      | Some price \<Rightarrow>
          insert_item
            \<lparr>i_shipment_id = shipment_id, i_org_id = org, i_product_id = l_product_id l,
             i_quantity = l_qty l, i_price = price, i_amount = price * of_int (l_qty l)\<rparr>
            (update_product (\<lambda>p. p\<lparr>p_stock := p_stock p - l_qty l\<rparr>) (l_product_id l) org d))"

fun commit_lines :: "ident \<Rightarrow> ident \<Rightarrow> line list \<Rightarrow> db \<Rightarrow> db option" where
  "commit_lines shipment_id org [] d = Some d"
| "commit_lines shipment_id org (l # ls) d =
     (case commit_line shipment_id org l d of
        None \<Rightarrow> None
      | Some d' \<Rightarrow> commit_lines shipment_id org ls d')"

definition post_shipments :: "env \<Rightarrow> auth \<Rightarrow> item_payload list \<Rightarrow> db \<Rightarrow> (response \<times> db) option" where
  "post_shipments e a items d =
     (if \<not> require_role a {Owner, Manager} then Some ((FORBIDDEN, Error InsufficientRights), d)
      else if items = [] then Some ((BAD_REQUEST, Error NoShipmentLines), d)
      else (case prepare items of
              None \<Rightarrow> Some ((BAD_REQUEST, Error BadShipmentLine), d)
            | Some prepared \<Rightarrow>
                (case check_lines d (a_org_id a) prepared of
                   Some refusal \<Rightarrow> Some (refusal, d)
                 | None \<Rightarrow>
                     (case insert_shipment
                             \<lparr>sh_id = e_shipment_id e, sh_org_id = a_org_id a,
                              sh_created_at = e_stamp e\<rparr> d of
                        None \<Rightarrow> None
                      | Some d1 \<Rightarrow>
                          (case commit_lines (e_shipment_id e) (a_org_id a) prepared d1 of
                             None \<Rightarrow> None
                           | Some d2 \<Rightarrow>
                               Some ((CREATED, State (fetch_state d2 (a_org_id a))), d2))))))"

text \<open>\<^verbatim>\<open>DELETE /api/shipments/<id>\<close>\<close>

definition restore_item :: "ident \<Rightarrow> item_row \<Rightarrow> db \<Rightarrow> db" where
  "restore_item org i d =
     update_product (\<lambda>p. p\<lparr>p_stock := p_stock p + i_quantity i\<rparr>) (i_product_id i) org d"

definition delete_shipments :: "auth \<Rightarrow> ident \<Rightarrow> db \<Rightarrow> response \<times> db" where
  "delete_shipments a shipment_id d =
     (if \<not> require_role a {Owner, Manager} then ((FORBIDDEN, Error InsufficientRights), d)
      else (case select_shipment d shipment_id (a_org_id a) of
              None \<Rightarrow> ((NOT_FOUND, Error ShipmentNotFound), d)
            | Some _ \<Rightarrow>
                let items = filter (\<lambda>i. i_shipment_id i = shipment_id \<and> i_org_id i = a_org_id a)
                              (org_shipment_items d);
                    d1 = fold (restore_item (a_org_id a)) items d;
                    d2 = delete_shipment shipment_id (a_org_id a) d1
                in ((OK, State (fetch_state d2 (a_org_id a))), d2)))"

subsection \<open>\<^verbatim>\<open>_route_auth\<close> and \<^verbatim>\<open>_route_api\<close>\<close>

text \<open>
  \<open>route_auth\<close> is \<open>None\<close> on a request that is not one of its routes
  (\<^verbatim>\<open>path.startswith("/api/auth/")\<close> fails), and \<open>Some None\<close> when the source raises.
\<close>

definition route_auth ::
  "env \<Rightarrow> string option \<Rightarrow> request \<Rightarrow> db \<Rightarrow> (response \<times> db) option option" where
  "route_auth e cookie req d =
     (case req of
        AuthRegister \<Rightarrow> Some (Some ((BAD_REQUEST, Error RegistrationDisabled), d))
      | AuthLogin username password \<Rightarrow> Some (auth_login e username password d)
      | AuthLogout \<Rightarrow> Some (Some (auth_logout e cookie d))
      | AuthMe \<Rightarrow> Some (Some (auth_me e cookie d))
      | AuthOther \<Rightarrow> Some (Some ((NOT_FOUND, Error RouteNotFound), d))
      | _ \<Rightarrow> None)"

definition api_handler :: "env \<Rightarrow> auth \<Rightarrow> request \<Rightarrow> db \<Rightarrow> (response \<times> db) option" where
  "api_handler e a req d =
     (case req of
        GetState \<Rightarrow> Some (get_state a d)
      | PostMembershipRole email role_text \<Rightarrow> Some (post_membership_role a email role_text d)
      | PostProduct payload \<Rightarrow> post_products e a payload d
      | PatchProductPrice product_id price \<Rightarrow> Some (patch_product_price a product_id price d)
      | PatchProduct product_id name price \<Rightarrow> Some (patch_product a product_id name price d)
      | DeleteProduct product_id \<Rightarrow> Some (delete_products a product_id d)
      | PostReceipt product_id quantity cost \<Rightarrow> post_receipts e a product_id quantity cost d
      | DeleteReceipt receipt_id \<Rightarrow> Some (delete_receipts a receipt_id d)
      | PostShipment items \<Rightarrow> post_shipments e a items d
      | DeleteShipment shipment_id \<Rightarrow> Some (delete_shipments a shipment_id d)
      | _ \<Rightarrow> Some ((NOT_FOUND, Error RouteNotFound), d))"

text \<open>
  \<^verbatim>\<open>_route_api\<close> with the 404 of \<^verbatim>\<open>do_GET\<close>, \<^verbatim>\<open>do_POST\<close>, \<^verbatim>\<open>do_PATCH\<close> and
  \<^verbatim>\<open>do_DELETE\<close>: the response, and the database after \<^verbatim>\<open>db_conn\<close> has committed or,
  on an exception, rolled back to \<open>d\<close>.
\<close>

definition route_api :: "env \<Rightarrow> string option \<Rightarrow> request \<Rightarrow> db \<Rightarrow> response \<times> db" where
  "route_api e cookie req d =
     (case (case route_auth e cookie req d of
              Some outcome \<Rightarrow> outcome
            | None \<Rightarrow>
                (case require_auth cookie (e_now e) d of
                   (Inl refusal, d') \<Rightarrow> Some (refusal, d')
                 | (Inr a, d') \<Rightarrow> api_handler e a req d')) of
        None \<Rightarrow> ((INTERNAL_SERVER_ERROR, Error InternalError), d)
      | Some outcome \<Rightarrow> outcome)"


subsection \<open>A concrete database\<close>

text \<open>
  Two organizations; an owner, a manager and a viewer of the first, each with a session
  that expires at 1000, and a member of the second; one product of each organization.
\<close>

definition demo_db :: db where
  "demo_db =
     \<lparr>organizations =
        [\<lparr>o_id = ''o1'', o_name = ''Main'', o_join_code = Some ''A1B2C3''\<rparr>,
         \<lparr>o_id = ''o2'', o_name = ''Other'', o_join_code = None\<rparr>],
      users =
        [\<lparr>u_id = ''u1'', u_name = ''admin'', u_email = ''admin@local'', u_password_hash = ''h1''\<rparr>,
         \<lparr>u_id = ''u2'', u_name = ''mia'', u_email = ''mia@local'', u_password_hash = ''h2''\<rparr>,
         \<lparr>u_id = ''u3'', u_name = ''vic'', u_email = ''vic@local'', u_password_hash = ''h3''\<rparr>,
         \<lparr>u_id = ''u4'', u_name = ''zoe'', u_email = ''zoe@local'', u_password_hash = ''h4''\<rparr>],
      memberships =
        [\<lparr>m_user_id = ''u1'', m_org_id = ''o1'', m_role = Owner, m_created_at = 1\<rparr>,
         \<lparr>m_user_id = ''u2'', m_org_id = ''o1'', m_role = Manager, m_created_at = 2\<rparr>,
         \<lparr>m_user_id = ''u3'', m_org_id = ''o1'', m_role = Viewer, m_created_at = 3\<rparr>,
         \<lparr>m_user_id = ''u4'', m_org_id = ''o2'', m_role = Owner, m_created_at = 4\<rparr>],
      sessions =
        [\<lparr>s_token = ''t1'', s_user_id = ''u1'', s_org_id = ''o1'', s_expires_at = 1000\<rparr>,
         \<lparr>s_token = ''t2'', s_user_id = ''u2'', s_org_id = ''o1'', s_expires_at = 1000\<rparr>,
         \<lparr>s_token = ''t3'', s_user_id = ''u3'', s_org_id = ''o1'', s_expires_at = 1000\<rparr>,
         \<lparr>s_token = ''t4'', s_user_id = ''u4'', s_org_id = ''o2'', s_expires_at = 1000\<rparr>],
      org_products =
        [\<lparr>p_id = ''p1'', p_org_id = ''o1'', p_name = ''Needle'', p_sku = ''00030'',
          p_unit = ''pc'', p_price = 600, p_stock = 5, p_purchase_price = 50,
          p_created_at = 10\<rparr>,
         \<lparr>p_id = ''p2'', p_org_id = ''o2'', p_name = ''Serum'', p_sku = ''00047'',
          p_unit = ''pc'', p_price = 2000, p_stock = 35, p_purchase_price = 1200,
          p_created_at = 11\<rparr>],
      org_receipts =
        [\<lparr>r_id = ''r1'', r_org_id = ''o1'', r_product_id = ''p1'', r_quantity = 7,
          r_cost = 50, r_created_at = 12\<rparr>,
         \<lparr>r_id = ''r2'', r_org_id = ''o2'', r_product_id = ''p2'', r_quantity = 20,
          r_cost = 1500, r_created_at = 13\<rparr>],
      org_shipments = [],
      org_shipment_items = []\<rparr>"

definition demo_env :: env where
  "demo_env =
     \<lparr>e_now = 100, e_stamp = 100, e_product_id = ''p9'', e_receipt_id = ''r9'',
      e_shipment_id = ''s9'', e_token = ''t9'', e_auto_sku = ''AUTO-0A1B'',
      e_verify = (\<lambda>password stored. False)\<rparr>"

definition demo_auth :: "string \<Rightarrow> ident \<Rightarrow> string \<Rightarrow> string \<Rightarrow> role \<Rightarrow> auth" where
  "demo_auth token uid name email r =
     \<lparr>a_token = token, a_user_id = uid, a_org_id = ''o1'', a_name = name, a_email = email,
      a_org_name = ''Main'', a_org_join_code = ''A1B2C3'', a_role = r\<rparr>"

definition demo_owner :: auth where
  "demo_owner = demo_auth ''t1'' ''u1'' ''admin'' ''admin@local'' Owner"

definition demo_manager :: auth where
  "demo_manager = demo_auth ''t2'' ''u2'' ''mia'' ''mia@local'' Manager"

definition demo_viewer :: auth where
  "demo_viewer = demo_auth ''t3'' ''u3'' ''vic'' ''vic@local'' Viewer"

definition demo_product :: product_payload where
  "demo_product =
     \<lparr>pp_name = '' Roller '', pp_sku = [], pp_unit = [], pp_price = 65000, pp_stock = 10,
      pp_purchase_price = 100\<rparr>"

definition demo_items :: "item_payload list" where
  "demo_items =
     [\<lparr>ip_product_id = ''p1'', ip_quantity = 2, ip_price = None\<rparr>,
      \<lparr>ip_product_id = '' p1'', ip_quantity = 3, ip_price = Some 500\<rparr>]"

text \<open>The viewer of the concrete database has lost the membership; the session stays.\<close>

definition demo_db_lost :: db where
  "demo_db_lost = demo_db\<lparr>memberships := filter (\<lambda>m. m_user_id m \<noteq> ''u3'') (memberships demo_db)\<rparr>"

text \<open>Two databases with the same organizations, users and sessions.\<close>

definition same_accounts :: "db \<Rightarrow> db \<Rightarrow> bool" where
  "same_accounts d' d =
     (organizations d' = organizations d \<and> users d' = users d \<and> sessions d' = sessions d)"





subsection \<open>The loops of the shipment route, piece by piece\<close>




text \<open>
  The products after the \<^verbatim>\<open>UPDATE\<close> of one round of the third loop.
\<close>

definition ship_line :: "ident \<Rightarrow> line \<Rightarrow> product_row list \<Rightarrow> product_row list" where
  "ship_line org l ps =
     map (\<lambda>p. if p_id p = l_product_id l \<and> p_org_id p = org
               then p\<lparr>p_stock := p_stock p - l_qty l\<rparr> else p) ps"

text \<open>
  The row that the third loop inserts for a line, its price taken from the line or else
  from the product as stored in \<open>d\<close>.
\<close>

definition item_of :: "db \<Rightarrow> ident \<Rightarrow> ident \<Rightarrow> line \<Rightarrow> item_row" where
  "item_of d shipment_id org l =
     (let price = (case l_price l of
                     Some custom \<Rightarrow> custom
                   | None \<Rightarrow> p_price (the (select_product d (l_product_id l) org)))
      in \<lparr>i_shipment_id = shipment_id, i_org_id = org, i_product_id = l_product_id l,
          i_quantity = l_qty l, i_price = price, i_amount = price * of_int (l_qty l)\<rparr>)"

section \<open>Properties\<close>

subsection \<open>Sessions and the dispatch\<close>

lemma get_current_auth_Some:
  "get_current_auth cookie now d = (Some a, d') \<Longrightarrow> d' = d"
  by (auto simp: get_current_auth_def split: option.splits if_splits list.splits)

lemma route_api_authenticated:
  assumes "get_current_auth cookie (e_now e) d = (Some a, d')"
      and "route_auth e cookie req d = None"
  shows "route_api e cookie req d =
           (case api_handler e a req d of
              None \<Rightarrow> ((INTERNAL_SERVER_ERROR, Error InternalError), d)
            | Some outcome \<Rightarrow> outcome)"
  using assms get_current_auth_Some[OF assms(1)]
  by (simp add: route_api_def require_auth_def)

lemma route_api_unauthenticated:
  assumes "get_current_auth cookie (e_now e) d = (None, d')"
      and "route_auth e cookie req d = None"
  shows "route_api e cookie req d = ((UNAUTHORIZED, Error AuthorizationRequired), d')"
  using assms by (simp add: route_api_def require_auth_def)

lemma demo_auth_owner:
  "get_current_auth (Some ''t1'') (e_now demo_env) demo_db = (Some demo_owner, demo_db)"
  by code_simp

lemma demo_auth_manager:
  "get_current_auth (Some ''t2'') (e_now demo_env) demo_db = (Some demo_manager, demo_db)"
  by code_simp

lemma demo_auth_viewer:
  "get_current_auth (Some ''t3'') (e_now demo_env) demo_db = (Some demo_viewer, demo_db)"
  by code_simp

subsection \<open>The authorization gate\<close>

lemma post_products_forbidden:
  "post_products e a payload d = Some ((st, b), d') \<Longrightarrow>
     (st = FORBIDDEN) = (a_role a = Viewer) \<and>
     (st = FORBIDDEN \<longrightarrow> b = Error InsufficientRights \<and> d' = d)"
  by (cases "a_role a")
     (auto simp: post_products_def require_role_def Let_def split: option.splits if_splits)

lemma post_products_viewer:
  "a_role a = Viewer \<Longrightarrow>
     post_products e a payload d = Some ((FORBIDDEN, Error InsufficientRights), d)"
  by (simp add: post_products_def require_role_def)

lemma check_lines_refusal:
  "check_lines d org ls = Some r \<Longrightarrow>
     r = (NOT_FOUND, Error ProductNotFound) \<or> r = (BAD_REQUEST, Error NotEnoughStock)"
  by (induction ls) (auto split: option.splits if_splits)

lemma post_shipments_forbidden:
  assumes h: "post_shipments e a items d = Some ((st, b), d')"
  shows "(st = FORBIDDEN) = (a_role a = Viewer) \<and>
         (st = FORBIDDEN \<longrightarrow> b = Error InsufficientRights \<and> d' = d)"
proof (cases "a_role a = Viewer")
  case True
  with h show ?thesis by (simp add: post_shipments_def require_role_def)
next
  case False
  have ok: "require_role a {Owner, Manager}"
    using False by (cases "a_role a") (simp_all add: require_role_def)
  have "st \<noteq> FORBIDDEN"
    using h ok
    by (auto simp: post_shipments_def split: option.splits if_splits dest!: check_lines_refusal)
  with False show ?thesis by simp
qed

lemma post_shipments_viewer:
  "a_role a = Viewer \<Longrightarrow>
     post_shipments e a items d = Some ((FORBIDDEN, Error InsufficientRights), d)"
  by (simp add: post_shipments_def require_role_def)

lemma post_membership_role_forbidden:
  "post_membership_role a email role_text d = ((st, b), d') \<Longrightarrow>
     (st = FORBIDDEN) = (a_role a \<noteq> Owner) \<and>
     (st = FORBIDDEN \<longrightarrow> b = Error OnlyOwnerChangesRoles \<and> d' = d)"
  by (cases "a_role a")
     (auto simp: post_membership_role_def require_role_def split: option.splits if_splits)

text \<open>
  Claim C7. Let the request be \<^verbatim>\<open>POST /api/products\<close>, \<^verbatim>\<open>POST /api/shipments\<close> or
  \<^verbatim>\<open>POST /api/memberships/role\<close>. When the cookie resolves to a session: a viewer gets
  403 and the database is as before; a manager gets 403 on the role change, the database
  as before; an owner never gets 403; and a 403 reads as the failure \<open>Forbidden\<close>.
  When a cookie does not resolve to a session (none, unknown or expired), the answer is
  401, which reads as \<open>Unauthenticated\<close>, a different failure.
\<close>

theorem role_enforcement:
  assumes au: "get_current_auth cookie (e_now e) d = (Some a, d')"
      and rq: "req = PostProduct payload \<or> req = PostShipment items
               \<or> req = PostMembershipRole email role_text"
  shows "(a_role a = Viewer \<longrightarrow>
            fst (fst (route_api e cookie req d)) = FORBIDDEN \<and> snd (route_api e cookie req d) = d)
       \<and> (a_role a = Manager \<and> req = PostMembershipRole email role_text \<longrightarrow>
            fst (fst (route_api e cookie req d)) = FORBIDDEN \<and> snd (route_api e cookie req d) = d)
       \<and> (a_role a = Owner \<longrightarrow> fst (fst (route_api e cookie req d)) \<noteq> FORBIDDEN)
       \<and> (fst (fst (route_api e cookie req d)) = FORBIDDEN \<longrightarrow>
            failure_of (fst (route_api e cookie req d)) = Some Forbidden)
       \<and> (\<forall>cookie' d0. fst (get_current_auth cookie' (e_now e) d0) = None \<longrightarrow>
            fst (fst (route_api e cookie' req d0)) = UNAUTHORIZED
            \<and> failure_of (fst (route_api e cookie' req d0)) = Some Unauthenticated
            \<and> failure_of (fst (route_api e cookie' req d0)) \<noteq> Some Forbidden)"
proof -
  have na: "route_auth e c req d0 = None" for c d0
    using rq by (auto simp: route_auth_def)
  note r = route_api_authenticated[OF au na]
  obtain st b where fb: "fst (route_api e cookie req d) = (st, b)"
    by (cases "fst (route_api e cookie req d)") auto
  have last: "st = FORBIDDEN \<longrightarrow> failure_of (st, b) = Some Forbidden"
    by simp
  from rq consider (p) "req = PostProduct payload" | (s) "req = PostShipment items"
    | (m) "req = PostMembershipRole email role_text" by blast
  then have main: "(a_role a = Viewer \<longrightarrow> st = FORBIDDEN \<and> snd (route_api e cookie req d) = d)
       \<and> (a_role a = Manager \<and> req = PostMembershipRole email role_text \<longrightarrow>
            st = FORBIDDEN \<and> snd (route_api e cookie req d) = d)
       \<and> (a_role a = Owner \<longrightarrow> st \<noteq> FORBIDDEN)"
  proof cases
    case p
    show ?thesis
    proof (cases "post_products e a payload d")
      case None
      with p r fb show ?thesis
        by (auto simp: api_handler_def post_products_viewer)
    next
      case (Some out)
      obtain st1 b1 d1 where o: "out = ((st1, b1), d1)" by (metis prod.collapse)
      from post_products_forbidden[OF Some[unfolded o]] Some p r fb o show ?thesis
        by (auto simp: api_handler_def)
    qed
  next
    case s
    show ?thesis
    proof (cases "post_shipments e a items d")
      case None
      with s r fb show ?thesis
        by (auto simp: api_handler_def post_shipments_viewer)
    next
      case (Some out)
      obtain st1 b1 d1 where o: "out = ((st1, b1), d1)" by (metis prod.collapse)
      from post_shipments_forbidden[OF Some[unfolded o]] Some s r fb o show ?thesis
        by (auto simp: api_handler_def)
    qed
  next
    case m
    obtain st1 b1 d1 where o: "post_membership_role a email role_text d = ((st1, b1), d1)"
      by (metis prod.collapse)
    from post_membership_role_forbidden[OF o] o m r fb show ?thesis
      by (auto simp: api_handler_def)
  qed
  have un: "fst (fst (route_api e c req d0)) = UNAUTHORIZED
            \<and> failure_of (fst (route_api e c req d0)) = Some Unauthenticated
            \<and> failure_of (fst (route_api e c req d0)) \<noteq> Some Forbidden"
    if "fst (get_current_auth c (e_now e) d0) = None" for c d0
  proof -
    have "get_current_auth c (e_now e) d0 = (None, snd (get_current_auth c (e_now e) d0))"
      using that by (simp add: prod_eq_iff)
    from route_api_unauthenticated[OF this na] show ?thesis by simp
  qed
  from main last fb un show ?thesis by auto
qed

theorem role_enforcement_witness:
  "fst (fst (route_api demo_env (Some ''t3'') (PostProduct demo_product) demo_db)) = FORBIDDEN
   \<and> snd (route_api demo_env (Some ''t3'') (PostProduct demo_product) demo_db) = demo_db
   \<and> fst (fst (route_api demo_env (Some ''t3'') (PostShipment demo_items) demo_db)) = FORBIDDEN
   \<and> snd (route_api demo_env (Some ''t3'') (PostShipment demo_items) demo_db) = demo_db
   \<and> fst (fst (route_api demo_env (Some ''t3'') (PostMembershipRole ''mia@local'' ''owner'') demo_db)) = FORBIDDEN
   \<and> fst (fst (route_api demo_env (Some ''t2'') (PostMembershipRole ''vic@local'' ''manager'') demo_db)) = FORBIDDEN
   \<and> snd (route_api demo_env (Some ''t2'') (PostMembershipRole ''vic@local'' ''manager'') demo_db) = demo_db
   \<and> fst (fst (route_api demo_env (Some ''t1'') (PostMembershipRole ''vic@local'' ''manager'') demo_db)) \<noteq> FORBIDDEN
   \<and> fst (fst (route_api demo_env (Some ''t1'') (PostProduct demo_product) demo_db)) \<noteq> FORBIDDEN
   \<and> fst (fst (route_api demo_env (Some ''t1'') (PostShipment demo_items) demo_db)) \<noteq> FORBIDDEN
   \<and> failure_of (fst (route_api demo_env (Some ''t3'') (PostProduct demo_product) demo_db)) = Some Forbidden
   \<and> failure_of (fst (route_api demo_env (Some ''nobody'') (PostProduct demo_product) demo_db)) = Some Unauthenticated"
proof -
  have v: "a_role demo_viewer = Viewer" and m: "a_role demo_manager = Manager"
    and o: "a_role demo_owner = Owner"
    by (simp_all add: demo_viewer_def demo_manager_def demo_owner_def demo_auth_def)
  have n: "fst (get_current_auth (Some ''nobody'') (e_now demo_env) demo_db) = None"
    by code_simp
  note t = role_enforcement[where payload = demo_product and items = demo_items]
  from t[OF demo_auth_viewer, of "PostProduct demo_product"]
       t[OF demo_auth_viewer, of "PostShipment demo_items"]
       t[OF demo_auth_viewer, of "PostMembershipRole ''mia@local'' ''owner''" "''mia@local''" "''owner''"]
       t[OF demo_auth_manager, of "PostMembershipRole ''vic@local'' ''manager''" "''vic@local''" "''manager''"]
       t[OF demo_auth_owner, of "PostMembershipRole ''vic@local'' ''manager''" "''vic@local''" "''manager''"]
       t[OF demo_auth_owner, of "PostProduct demo_product"]
       t[OF demo_auth_owner, of "PostShipment demo_items"]
       v m o n
  show ?thesis by simp
qed


lemma session_join_session:
  "row \<in> set (session_join d token) \<Longrightarrow> fst row \<in> set (sessions d) \<and> s_token (fst row) = token"
  by (auto simp: session_join_def)

lemma session_join_membership:
  "row \<in> set (session_join d token) \<Longrightarrow>
     snd (snd (snd row)) \<in> set (memberships d)
     \<and> m_user_id (snd (snd (snd row))) = s_user_id (fst row)
     \<and> m_org_id (snd (snd (snd row))) = s_org_id (fst row)"
  by (auto simp: session_join_def)


lemma get_current_auth_no_row:
  "session_join d token = [] \<Longrightarrow> get_current_auth (Some token) now d = (None, d)"
  by (simp add: get_current_auth_def)

subsection \<open>Expiry of sessions\<close>




lemma get_current_auth_cases:
  "snd (get_current_auth cookie now d) = d
   \<or> (\<exists>token. cookie = Some token \<and> session_join d token \<noteq> []
         \<and> s_expires_at (fst (hd (session_join d token))) \<le> now
         \<and> fst (get_current_auth cookie now d) = None
         \<and> snd (get_current_auth cookie now d) = delete_session token d)"
  by (auto simp: get_current_auth_def split: option.splits list.splits)

lemma get_current_auth_token:
  assumes "get_current_auth cookie now d = (Some a, d')"
  shows "cookie = Some (a_token a) \<and> session_join d (a_token a) \<noteq> []"
proof -
  from assms obtain token where c: "cookie = Some token"
    by (cases cookie) (auto simp: get_current_auth_def)
  from assms c obtain row rows where j: "session_join d token = row # rows"
    by (cases "session_join d token") (auto simp: get_current_auth_def split: if_splits)
  from assms c j have a: "a = auth_of row"
    by (auto simp: get_current_auth_def split: if_splits)
  have "row \<in> set (session_join d token)" using j by simp
  from session_join_session[OF this] have "a_token (auth_of row) = token"
    by (cases row) (simp add: auth_of_def)
  with a c j show ?thesis by simp
qed

lemma commit_lines_frame:
  "commit_lines sid org ls d = Some d' \<Longrightarrow>
     organizations d' = organizations d \<and> users d' = users d
     \<and> memberships d' = memberships d \<and> sessions d' = sessions d
     \<and> org_receipts d' = org_receipts d \<and> org_shipments d' = org_shipments d"
  by (induction ls arbitrary: d)
     (auto simp: commit_line_def insert_item_def update_product_def
           split: option.splits if_splits)

lemma restore_items_frame:
  "organizations (fold (restore_item org) items d) = organizations d
   \<and> users (fold (restore_item org) items d) = users d
   \<and> memberships (fold (restore_item org) items d) = memberships d
   \<and> sessions (fold (restore_item org) items d) = sessions d
   \<and> org_receipts (fold (restore_item org) items d) = org_receipts d
   \<and> org_shipments (fold (restore_item org) items d) = org_shipments d
   \<and> org_shipment_items (fold (restore_item org) items d) = org_shipment_items d"
  by (induction items arbitrary: d) (auto simp: restore_item_def update_product_def)


lemma same_accounts_refl [simp]: "same_accounts d d"
  by (simp add: same_accounts_def)


lemma same_accounts_trans: "same_accounts d2 d1 \<Longrightarrow> same_accounts d1 d \<Longrightarrow> same_accounts d2 d"
  by (simp add: same_accounts_def)

lemma same_accounts_insert_product: "insert_product p d = Some d' \<Longrightarrow> same_accounts d' d"
  by (auto simp: insert_product_def same_accounts_def split: if_splits)

lemma same_accounts_insert_receipt: "insert_receipt p d = Some d' \<Longrightarrow> same_accounts d' d"
  by (auto simp: insert_receipt_def same_accounts_def split: if_splits)

lemma same_accounts_update_product [simp]: "same_accounts (update_product f p org d) d"
  by (simp add: update_product_def same_accounts_def)


lemma frame_post_shipments:
  "post_shipments e a items d = Some (r, d') \<Longrightarrow> same_accounts d' d"
  by (auto simp: same_accounts_def post_shipments_def insert_shipment_def
           split: option.splits if_splits dest!: commit_lines_frame)


lemma frame_delete_shipments:
  "delete_shipments a sid d = (r, d') \<Longrightarrow> same_accounts d' d"
  using restore_items_frame[of "a_org_id a" _ d]
  by (auto simp: same_accounts_def delete_shipments_def delete_shipment_def Let_def
           split: option.splits if_splits)


lemma frame_post_products:
  assumes "post_products e a p d = Some (r, d')"
  shows "same_accounts d' d"
proof (cases "require_role a {Owner, Manager} \<and> strip (pp_name p) \<noteq> []")
  case False
  with assms show ?thesis by (auto simp: post_products_def Let_def split: if_splits)
next
  case True
  with assms obtain row d1 where i: "insert_product row d = Some d1"
    and r: "d' = d1 \<or> (\<exists>rc. insert_receipt rc d1 = Some d')"
    by (simp add: post_products_def Let_def split: option.splits if_splits) blast+
  from r same_accounts_insert_product[OF i] show ?thesis
    by (auto dest!: same_accounts_insert_receipt intro: same_accounts_trans)
qed


lemma frame_post_receipts:
  assumes "post_receipts e a p q c d = Some (r, d')"
  shows "same_accounts d' d"
proof -
  let ?d1 = "update_product
               (\<lambda>x. x\<lparr>p_stock := p_stock x + py_int q,
                      p_purchase_price := (if max 0 c > 0 then max 0 c else p_purchase_price x)\<rparr>)
               (strip p) (a_org_id a) d"
  let ?rc = "\<lparr>r_id = e_receipt_id e, r_org_id = a_org_id a, r_product_id = strip p,
              r_quantity = py_int q, r_cost = max 0 c, r_created_at = e_stamp e\<rparr>"
  have eq: "post_receipts e a p q c d =
      (if \<not> require_role a {Owner, Manager} then Some ((FORBIDDEN, Error InsufficientRights), d)
       else if strip p = [] \<or> py_int q \<le> 0 then Some ((BAD_REQUEST, Error BadReceiptData), d)
       else if select_product d (strip p) (a_org_id a) = None
            then Some ((NOT_FOUND, Error ProductNotFound), d)
       else (case insert_receipt ?rc ?d1 of
               None \<Rightarrow> None
             | Some d2 \<Rightarrow> Some ((CREATED, State (fetch_state d2 (a_org_id a))), d2)))"
    by (simp add: post_receipts_def Let_def split: option.split)
  show ?thesis
  proof (cases "d' = d")
    case True
    then show ?thesis by simp
  next
    case False
    with assms have "insert_receipt ?rc ?d1 = Some d'"
      unfolding eq by (simp split: if_splits option.splits)
    from same_accounts_insert_receipt[OF this] show ?thesis
      by (rule same_accounts_trans) simp
  qed
qed


lemma frame_delete_receipts:
  "delete_receipts a rid d = (r, d') \<Longrightarrow> same_accounts d' d"
  by (auto simp: same_accounts_def delete_receipts_def delete_receipt_def update_product_def Let_def
           split: option.splits if_splits)


lemma frame_delete_products:
  "delete_products a pid d = (r, d') \<Longrightarrow> same_accounts d' d"
  by (auto simp: same_accounts_def delete_products_def delete_product_def
                 sweep_empty_shipments_def Let_def
           split: option.splits if_splits)


lemma frame_patch_product:
  "patch_product a pid n p d = (r, d') \<Longrightarrow> same_accounts d' d"
  by (auto simp: same_accounts_def patch_product_def update_product_def Let_def
           split: option.splits if_splits)


lemma frame_patch_product_price:
  "patch_product_price a pid p d = (r, d') \<Longrightarrow> same_accounts d' d"
  by (auto simp: same_accounts_def patch_product_price_def update_product_def Let_def
           split: option.splits if_splits)


lemma frame_post_membership_role:
  "post_membership_role a em ro d = (r, d') \<Longrightarrow> same_accounts d' d"
  by (auto simp: same_accounts_def post_membership_role_def
           split: option.splits if_splits)


lemma api_handler_frame:
  assumes "api_handler e a req d = Some (r, d')"
  shows "same_accounts d' d"
  using assms
  by (cases req)
     (auto simp: api_handler_def get_state_def
           dest: frame_post_shipments frame_delete_shipments frame_post_products
                 frame_post_receipts frame_delete_receipts frame_delete_products
                 frame_patch_product frame_patch_product_price frame_post_membership_role)




lemma delete_session_keeps:
  "s \<in> set (sessions d) \<Longrightarrow> s \<notin> set (sessions (delete_session token d)) \<Longrightarrow> s_token s = token"
  by (auto simp: delete_session_def)

lemma get_current_auth_deletes:
  assumes "s \<in> set (sessions d)" and "s \<notin> set (sessions (snd (get_current_auth cookie now d)))"
  shows "cookie = Some (s_token s) \<and> session_join d (s_token s) \<noteq> []
         \<and> s_expires_at (fst (hd (session_join d (s_token s)))) \<le> now"
  using get_current_auth_cases[of cookie now d] assms
  by (auto dest: delete_session_keeps)

lemma auth_login_keeps:
  "auth_login e u p d = Some (r, d') \<Longrightarrow> set (sessions d) \<subseteq> set (sessions d')"
  by (auto simp: auth_login_def insert_session_def split: option.splits if_splits)

lemma route_api_deletes:
  assumes s: "s \<in> set (sessions d)"
      and n: "s \<notin> set (sessions (snd (route_api e cookie req d)))"
  shows "cookie = Some (s_token s) \<and> session_join d (s_token s) \<noteq> []
         \<and> (s_expires_at (fst (hd (session_join d (s_token s)))) \<le> e_now e \<or> req = AuthLogout)"
proof (cases "route_auth e cookie req d")
  case None
  obtain g d1 where g: "get_current_auth cookie (e_now e) d = (g, d1)" by (metis prod.collapse)
  show ?thesis
  proof (cases g)
    case gn: None
    from route_api_unauthenticated[OF g[unfolded gn] None] n
    have "s \<notin> set (sessions (snd (get_current_auth cookie (e_now e) d)))"
      using g by simp
    from get_current_auth_deletes[OF s this] show ?thesis by simp
  next
    case (Some a)
    note r = route_api_authenticated[OF g[unfolded Some] None]
    show ?thesis
    proof (cases "api_handler e a req d")
      case hn: None
      with r n s show ?thesis by simp
    next
      case (Some out)
      then have "same_accounts (snd out) d"
        using api_handler_frame[of e a req d "fst out" "snd out"] by simp
      with r n s Some show ?thesis by (simp add: same_accounts_def)
    qed
  qed
next
  case (Some out)
  then consider (reg) "req = AuthRegister" | (oth) "req = AuthOther" | (me) "req = AuthMe"
    | (out) "req = AuthLogout" | (login) u p where "req = AuthLogin u p"
    by (cases req) (auto simp: route_auth_def)
  then show ?thesis
  proof cases
    case reg
    with n s show ?thesis by (simp add: route_api_def route_auth_def)
  next
    case oth
    with n s show ?thesis by (simp add: route_api_def route_auth_def)
  next
    case me
    with n have "s \<notin> set (sessions (snd (get_current_auth cookie (e_now e) d)))"
      by (simp add: route_api_def route_auth_def auth_me_def split: prod.splits option.splits)
    from get_current_auth_deletes[OF s this] show ?thesis by simp
  next
    case out
    obtain g d1 where g: "get_current_auth cookie (e_now e) d = (g, d1)" by (metis prod.collapse)
    show ?thesis
    proof (cases g)
      case None
      with out n g have "s \<notin> set (sessions (snd (get_current_auth cookie (e_now e) d)))"
        by (simp add: route_api_def route_auth_def auth_logout_def)
      from get_current_auth_deletes[OF s this] show ?thesis by simp
    next
      case (Some a)
      from get_current_auth_Some[OF g[unfolded Some]] have d1: "d1 = d" .
      from out n g Some d1 have "s \<notin> set (sessions (delete_session (a_token a) d))"
        by (simp add: route_api_def route_auth_def auth_logout_def)
      from delete_session_keeps[OF s this] get_current_auth_token[OF g[unfolded Some]] out
      show ?thesis by simp
    qed
  next
    case login
    show ?thesis
    proof (cases "auth_login e u p d")
      case None
      with login n s show ?thesis by (simp add: route_api_def route_auth_def)
    next
      case (Some o2)
      then have "set (sessions d) \<subseteq> set (sessions (snd o2))"
        using auth_login_keeps[of e u p d "fst o2" "snd o2"] by simp
      with login n s Some show ?thesis by (auto simp: route_api_def route_auth_def)
    qed
  qed
qed

subsection \<open>Sessions without membership\<close>

text \<open>
  Claim C10. When no membership binds the user of the token's session to the
  organization of that session, resolving the token reports no session and leaves the
  database as it is, whatever the expiry; \<open>require_auth\<close> answers 401, and so does
  every route behind it, which reads as \<open>Unauthenticated\<close> and not as \<open>Forbidden\<close>.
  Moreover, for every request on every database: a stored session that is no longer stored
  after the request is the session of the request's cookie, the joined query finds it
  (so its membership exists), and it has expired or the request is the logout.
\<close>

theorem membership_loss_unauthenticated:
  assumes nm: "\<forall>s \<in> set (sessions d). s_token s = token \<longrightarrow>
                 (\<forall>m \<in> set (memberships d). m_user_id m = s_user_id s \<longrightarrow> m_org_id m \<noteq> s_org_id s)"
  shows "get_current_auth (Some token) now d = (None, d)
       \<and> require_auth (Some token) now d = (Inl (UNAUTHORIZED, Error AuthorizationRequired), d)
       \<and> (route_auth e (Some token) req d = None \<longrightarrow>
            route_api e (Some token) req d = ((UNAUTHORIZED, Error AuthorizationRequired), d)
            \<and> failure_of (fst (route_api e (Some token) req d)) = Some Unauthenticated
            \<and> failure_of (fst (route_api e (Some token) req d)) \<noteq> Some Forbidden)
       \<and> (\<forall>cookie' req' d0 s.
             s \<in> set (sessions d0) \<and> s \<notin> set (sessions (snd (route_api e cookie' req' d0))) \<longrightarrow>
             cookie' = Some (s_token s) \<and> session_join d0 (s_token s) \<noteq> []
             \<and> (s_expires_at (fst (hd (session_join d0 (s_token s)))) \<le> e_now e
                 \<or> req' = AuthLogout))"
proof -
  have j: "session_join d token = []"
  proof (rule ccontr)
    assume "session_join d token \<noteq> []"
    then obtain row where r: "row \<in> set (session_join d token)"
      by (cases "session_join d token") auto
    from session_join_session[OF r] session_join_membership[OF r] nm show False
      by blast
  qed
  have g: "get_current_auth (Some token) n d = (None, d)" for n
    by (rule get_current_auth_no_row[OF j])
  have ra: "require_auth (Some token) now d = (Inl (UNAUTHORIZED, Error AuthorizationRequired), d)"
    by (simp add: require_auth_def g)
  have rt: "route_api e (Some token) req d = ((UNAUTHORIZED, Error AuthorizationRequired), d)"
    if "route_auth e (Some token) req d = None"
    by (rule route_api_unauthenticated[OF g that])
  have del: "\<forall>cookie' req' d0 s.
             s \<in> set (sessions d0) \<and> s \<notin> set (sessions (snd (route_api e cookie' req' d0))) \<longrightarrow>
             cookie' = Some (s_token s) \<and> session_join d0 (s_token s) \<noteq> []
             \<and> (s_expires_at (fst (hd (session_join d0 (s_token s)))) \<le> e_now e
                 \<or> req' = AuthLogout)"
    using route_api_deletes by blast
  from rt have rt': "route_auth e (Some token) req d = None \<longrightarrow>
            route_api e (Some token) req d = ((UNAUTHORIZED, Error AuthorizationRequired), d)
            \<and> failure_of (fst (route_api e (Some token) req d)) = Some Unauthenticated
            \<and> failure_of (fst (route_api e (Some token) req d)) \<noteq> Some Forbidden"
    by simp
  from g[of now] ra rt' del show ?thesis by (intro conjI)
qed

theorem membership_loss_unauthenticated_witness:
  "\<lparr>s_token = ''t3'', s_user_id = ''u3'', s_org_id = ''o1'', s_expires_at = 1000\<rparr>
      \<in> set (sessions demo_db_lost)
   \<and> e_now demo_env < 1000
   \<and> get_current_auth (Some ''t3'') (e_now demo_env) demo_db_lost = (None, demo_db_lost)
   \<and> route_api demo_env (Some ''t3'') GetState demo_db_lost
       = ((UNAUTHORIZED, Error AuthorizationRequired), demo_db_lost)
   \<and> failure_of (fst (route_api demo_env (Some ''t3'') GetState demo_db_lost)) = Some Unauthenticated
   \<and> \<lparr>s_token = ''t1'', s_user_id = ''u1'', s_org_id = ''o1'', s_expires_at = 1000\<rparr>
        \<notin> set (sessions (snd (route_api demo_env (Some ''t1'') AuthLogout demo_db)))
   \<and> session_join demo_db ''t1'' \<noteq> []"
proof -
  have nm: "\<forall>s \<in> set (sessions demo_db_lost). s_token s = ''t3'' \<longrightarrow>
              (\<forall>m \<in> set (memberships demo_db_lost).
                 m_user_id m = s_user_id s \<longrightarrow> m_org_id m \<noteq> s_org_id s)"
    by (simp add: demo_db_lost_def demo_db_def)
  have c: "\<lparr>s_token = ''t3'', s_user_id = ''u3'', s_org_id = ''o1'', s_expires_at = 1000\<rparr>
             \<in> set (sessions demo_db_lost)"
          "e_now demo_env < 1000"
          "route_auth demo_env (Some ''t3'') GetState demo_db_lost = None"
          "\<lparr>s_token = ''t1'', s_user_id = ''u1'', s_org_id = ''o1'', s_expires_at = 1000\<rparr>
             \<in> set (sessions demo_db)"
          "\<lparr>s_token = ''t1'', s_user_id = ''u1'', s_org_id = ''o1'', s_expires_at = 1000\<rparr>
             \<notin> set (sessions (snd (route_api demo_env (Some ''t1'') AuthLogout demo_db)))"
    by code_simp+
  note th = membership_loss_unauthenticated[OF nm, of "e_now demo_env" demo_env GetState]
  from th have g: "get_current_auth (Some ''t3'') (e_now demo_env) demo_db_lost = (None, demo_db_lost)"
    by (rule conjunct1)
  from th c(3) have r: "route_api demo_env (Some ''t3'') GetState demo_db_lost
       = ((UNAUTHORIZED, Error AuthorizationRequired), demo_db_lost)
     \<and> failure_of (fst (route_api demo_env (Some ''t3'') GetState demo_db_lost)) = Some Unauthenticated"
    by simp
  have j: "session_join demo_db ''t1'' \<noteq> []"
    using th[THEN conjunct2, THEN conjunct2, THEN conjunct2, rule_format,
             OF conjI[OF c(4) c(5)], THEN conjunct2, THEN conjunct1]
    by simp
  from c(1) c(2) g r c(5) j show ?thesis by simp
qed




lemma require_role_writer: "require_role a {Owner, Manager} = (a_role a \<noteq> Viewer)"
  by (cases "a_role a") (simp_all add: require_role_def)



lemma select_product_None:
  "(select_product d pid org = None) = (\<forall>p \<in> set (org_products d). p_id p = pid \<longrightarrow> p_org_id p \<noteq> org)"
  by (auto simp: select_product_def find_None_iff)

subsection \<open>Receipts\<close>




lemma select_receipt_None:
  "(select_receipt d rid org = None) = (\<forall>r \<in> set (org_receipts d). r_id r = rid \<longrightarrow> r_org_id r \<noteq> org)"
  by (auto simp: select_receipt_def find_None_iff)

lemma select_receipt_Some:
  "select_receipt d rid org = Some r \<Longrightarrow> r \<in> set (org_receipts d) \<and> r_id r = rid \<and> r_org_id r = org"
  by (auto simp: select_receipt_def find_Some_iff)

text \<open>
  Claim C6. Let the cookie resolve to a session whose role is not viewer. When the receipt
  id names a receipt of the session's organization, \<^verbatim>\<open>DELETE /api/receipts/<id>\<close> answers
  200 with the state, and the committed database differs from the old one in exactly this:
  the stock of the receipt's product (in the organization) is \<open>max 0 (stock - quantity)\<close>,
  whatever other receipts exist, and the receipt is removed. When no receipt of the
  organization has the id, the answer is 404 (\<open>NotFound\<close>) and the database is as before.
\<close>

theorem delete_receipt_clamps:
  assumes au: "get_current_auth cookie (e_now e) d = (Some a, d')"
      and ro: "a_role a \<noteq> Viewer"
  shows "(select_receipt d receipt_id (a_org_id a) = Some receipt \<longrightarrow>
            fst (route_api e cookie (DeleteReceipt receipt_id) d) =
              (OK, State (fetch_state (snd (route_api e cookie (DeleteReceipt receipt_id) d))
                            (a_org_id a)))
            \<and> snd (route_api e cookie (DeleteReceipt receipt_id) d) =
                d\<lparr>org_products :=
                     map (\<lambda>x. if p_id x = r_product_id receipt \<and> p_org_id x = a_org_id a
                               then x\<lparr>p_stock := max 0 (p_stock x - r_quantity receipt)\<rparr>
                               else x) (org_products d),
                   org_receipts :=
                     filter (\<lambda>r. \<not> (r_id r = receipt_id \<and> r_org_id r = a_org_id a))
                       (org_receipts d)\<rparr>)
       \<and> ((\<forall>r \<in> set (org_receipts d). r_id r = receipt_id \<longrightarrow> r_org_id r \<noteq> a_org_id a) \<longrightarrow>
            route_api e cookie (DeleteReceipt receipt_id) d
              = ((NOT_FOUND, Error ReceiptNotFound), d)
            \<and> failure_of (fst (route_api e cookie (DeleteReceipt receipt_id) d)) = Some NotFound)"
proof -
  have na: "route_auth e cookie (DeleteReceipt receipt_id) d = None"
    by (simp add: route_auth_def)
  note r = route_api_authenticated[OF au na]
  have w: "require_role a {Owner, Manager}"
    using ro by (simp add: require_role_writer)
  have clamp: "(\<lambda>x. x\<lparr>p_stock := (if p_stock x - q < 0 then 0 else p_stock x - q)\<rparr>)
               = (\<lambda>x. x\<lparr>p_stock := max 0 (p_stock x - q)\<rparr>)" for q :: int
    by (auto simp: fun_eq_iff max_def)
  have found: ?thesis if "select_receipt d receipt_id (a_org_id a) = Some receipt"
  proof -
    from select_receipt_Some[OF that] have "\<not> (\<forall>r \<in> set (org_receipts d). r_id r = receipt_id \<longrightarrow> r_org_id r \<noteq> a_org_id a)"
      by blast
    then show ?thesis
      using that w
      by (simp add: r api_handler_def delete_receipts_def Let_def clamp update_product_def
                    delete_receipt_def)
  qed
  have missing: ?thesis if "select_receipt d receipt_id (a_org_id a) = None"
    using that w select_receipt_None[of d receipt_id "a_org_id a"]
    by (simp add: r api_handler_def delete_receipts_def)
  from found missing show ?thesis
    by (cases "select_receipt d receipt_id (a_org_id a)")
       (auto simp: select_receipt_None dest: select_receipt_Some)
qed


theorem delete_receipt_clamps_witness:
  "get_current_auth (Some ''t1'') (e_now demo_env) demo_db = (Some demo_owner, demo_db)
   \<and> a_role demo_owner \<noteq> Viewer
   \<and> select_receipt demo_db ''r1'' (a_org_id demo_owner) = Some (hd (org_receipts demo_db))
   \<and> r_quantity (hd (org_receipts demo_db)) = 7
   \<and> map p_stock (org_products demo_db) = [5, 35]
   \<and> fst (fst (route_api demo_env (Some ''t1'') (DeleteReceipt ''r1'') demo_db)) = OK
   \<and> map p_stock (org_products (snd (route_api demo_env (Some ''t1'') (DeleteReceipt ''r1'') demo_db)))
       = [0, 35]
   \<and> map r_id (org_receipts (snd (route_api demo_env (Some ''t1'') (DeleteReceipt ''r1'') demo_db)))
       = [''r2'']
   \<and> ''r2'' \<in> set (map r_id (org_receipts demo_db))
   \<and> route_api demo_env (Some ''t1'') (DeleteReceipt ''r2'') demo_db
       = ((NOT_FOUND, Error ReceiptNotFound), demo_db)"
proof -
  have h: "a_role demo_owner \<noteq> Viewer"
    "select_receipt demo_db ''r1'' (a_org_id demo_owner) = Some (hd (org_receipts demo_db))"
    "r_quantity (hd (org_receipts demo_db)) = 7"
    "map p_stock (org_products demo_db) = [5, 35]"
    "''r2'' \<in> set (map r_id (org_receipts demo_db))"
    by code_simp+
  have n: "\<forall>r \<in> set (org_receipts demo_db). r_id r = ''r2'' \<longrightarrow> r_org_id r \<noteq> a_org_id demo_owner"
    by (simp add: demo_db_def demo_owner_def demo_auth_def)
  note t1 = delete_receipt_clamps[OF demo_auth_owner h(1), of "''r1''" "hd (org_receipts demo_db)",
              THEN conjunct1, THEN mp, OF h(2)]
  note t2 = delete_receipt_clamps[OF demo_auth_owner h(1), of "''r2''" "hd (org_receipts demo_db)",
              THEN conjunct2, THEN mp, OF n, THEN conjunct1]
  have v: "a_org_id demo_owner = ''o1''"
    by (simp add: demo_owner_def demo_auth_def)
  have st: "fst (fst (route_api demo_env (Some ''t1'') (DeleteReceipt ''r1'') demo_db)) = OK"
    by (simp add: t1[THEN conjunct1])
  have ps: "map p_stock (org_products (snd (route_api demo_env (Some ''t1'') (DeleteReceipt ''r1'') demo_db))) = [0, 35]"
    and rs: "map r_id (org_receipts (snd (route_api demo_env (Some ''t1'') (DeleteReceipt ''r1'') demo_db))) = [''r2'']"
    by (simp_all add: t1[THEN conjunct2] v) (simp_all add: demo_db_def)
  from demo_auth_owner h(1) h(2) h(3) h(4) st ps rs h(5) t2
  show ?thesis by (intro conjI)
qed


subsection \<open>Products\<close>







subsection \<open>Shipments\<close>







lemma ship_line_ids [simp]: "map p_id (ship_line org l ps) = map p_id ps"
  by (induction ps) (auto simp: ship_line_def)













lemma item_of_fields [simp]:
  "i_product_id (item_of d sid org l) = l_product_id l"
  "i_quantity (item_of d sid org l) = l_qty l"
  "i_shipment_id (item_of d sid org l) = sid"
  "i_org_id (item_of d sid org l) = org"
  by (simp_all add: item_of_def Let_def)









text \<open>
  Claim C1 fails on the code. The second loop of \<^verbatim>\<open>POST /api/shipments\<close> compares every
  line with the stock as stored, so two lines of 4 for a product with stock 5 both pass,
  and the third loop decrements twice: the request is answered 201 and the stock is -3.
\<close>

theorem shipment_duplicate_lines_negative_stock:
  "get_current_auth (Some ''t1'') (e_now demo_env) demo_db = (Some demo_owner, demo_db)
   \<and> a_role demo_owner = Owner
   \<and> map (\<lambda>p. (p_id p, p_org_id p, p_stock p)) (org_products demo_db)
       = [(''p1'', ''o1'', 5), (''p2'', ''o2'', 35)]
   \<and> fst (fst (route_api demo_env (Some ''t1'')
                  (PostShipment [\<lparr>ip_product_id = ''p1'', ip_quantity = 4, ip_price = None\<rparr>,
                                 \<lparr>ip_product_id = ''p1'', ip_quantity = 4, ip_price = None\<rparr>])
                  demo_db)) = CREATED
   \<and> map (\<lambda>p. (p_id p, p_org_id p, p_stock p))
        (org_products
           (snd (route_api demo_env (Some ''t1'')
                   (PostShipment [\<lparr>ip_product_id = ''p1'', ip_quantity = 4, ip_price = None\<rparr>,
                                  \<lparr>ip_product_id = ''p1'', ip_quantity = 4, ip_price = None\<rparr>])
                   demo_db)))
       = [(''p1'', ''o1'', - 3), (''p2'', ''o2'', 35)]"
  by code_simp


end
